theory Spec2Isabelle
  imports Main "HOL-Library.Word" "HOL-Library.AList"
begin

unbundle bit_operations_syntax

section \<open>Machine types and byte order\<close>

type_synonym u8 = "8 word"
type_synonym u16 = "16 word"
type_synonym u32 = "32 word"
type_synonym u64 = "64 word"

text \<open>
  The programs read multi-byte header fields as they lie in the packet and convert them
  with the macros \<^verbatim>\<open>bpf_ntohl\<close>, \<^verbatim>\<open>bpf_ntohs\<close> and \<^verbatim>\<open>bpf_htons\<close> of
  \<^verbatim>\<open>bpf/bpf_endian.h\<close>. That header is not among the sources: the macros are the
  identity on a big-endian target and a byte swap on a little-endian one, so the byte
  order of the target is a parameter of the model.
\<close>

datatype endian = LittleEndian | BigEndian

definition bswap16 :: "u16 \<Rightarrow> u16" where
  "bswap16 x = push_bit 8 (x AND 0x00ff) OR drop_bit 8 (x AND 0xff00)"

definition bswap32 :: "u32 \<Rightarrow> u32" where
  "bswap32 x = push_bit 24 (x AND 0x000000ff) OR push_bit 8 (x AND 0x0000ff00)
     OR drop_bit 8 (x AND 0x00ff0000) OR drop_bit 24 (x AND 0xff000000)"

definition bpf_ntohs :: "endian \<Rightarrow> u16 \<Rightarrow> u16" where
  "bpf_ntohs e x = (case e of LittleEndian \<Rightarrow> bswap16 x | BigEndian \<Rightarrow> x)"

definition bpf_htons :: "endian \<Rightarrow> u16 \<Rightarrow> u16" where
  "bpf_htons e x = (case e of LittleEndian \<Rightarrow> bswap16 x | BigEndian \<Rightarrow> x)"

definition bpf_ntohl :: "endian \<Rightarrow> u32 \<Rightarrow> u32" where
  "bpf_ntohl e x = (case e of LittleEndian \<Rightarrow> bswap32 x | BigEndian \<Rightarrow> x)"

text \<open>
  A load of a 2-byte or 4-byte field at byte offset \<open>off\<close> of the packet, as the
  target sees it. The hooks load only below \<^verbatim>\<open>data_end\<close>, after their bounds checks.
\<close>

definition load16 :: "endian \<Rightarrow> u8 list \<Rightarrow> nat \<Rightarrow> u16" where
  "load16 e d off = (case e of
      LittleEndian \<Rightarrow> push_bit 8 (ucast (d ! (off + 1))) OR ucast (d ! off)
    | BigEndian \<Rightarrow> push_bit 8 (ucast (d ! off)) OR ucast (d ! (off + 1)))"

definition load32 :: "endian \<Rightarrow> u8 list \<Rightarrow> nat \<Rightarrow> u32" where
  "load32 e d off = (case e of
      LittleEndian \<Rightarrow> push_bit 24 (ucast (d ! (off + 3))) OR push_bit 16 (ucast (d ! (off + 2)))
        OR push_bit 8 (ucast (d ! (off + 1))) OR ucast (d ! off)
    | BigEndian \<Rightarrow> push_bit 24 (ucast (d ! off)) OR push_bit 16 (ucast (d ! (off + 1)))
        OR push_bit 8 (ucast (d ! (off + 2))) OR ucast (d ! (off + 3)))"

section \<open>The packet and its headers\<close>

text \<open>
  \<^verbatim>\<open>struct __sk_buff\<close>: \<open>skb_len\<close> is \<^verbatim>\<open>skb->len\<close>, \<open>skb_data\<close> the bytes from
  \<^verbatim>\<open>skb->data\<close> up to \<^verbatim>\<open>skb->data_end\<close>. A pointer check
  \<^verbatim>\<open>(void *)(h + 1) > data_end\<close> is a comparison of the header's end offset with
  the length of \<open>skb_data\<close>.
\<close>

record sk_buff =
  skb_len :: u32
  skb_data :: "u8 list"

definition ETH_HLEN :: nat where "ETH_HLEN = 14"
definition IPHDR_LEN :: nat where "IPHDR_LEN = 20"
definition TCPHDR_LEN :: nat where "TCPHDR_LEN = 20"
definition UDPHDR_LEN :: nat where "UDPHDR_LEN = 8"
definition ETH_P_IP :: u16 where "ETH_P_IP = 0x0800"
definition IPPROTO_TCP :: u8 where "IPPROTO_TCP = 6"
definition IPPROTO_UDP :: u8 where "IPPROTO_UDP = 17"
definition TC_ACT_OK :: int where "TC_ACT_OK = 0"

text \<open>Field offsets of \<^verbatim>\<open>struct ethhdr\<close> and \<^verbatim>\<open>struct iphdr\<close> behind it.\<close>

definition eth_h_proto :: "endian \<Rightarrow> u8 list \<Rightarrow> u16" where
  "eth_h_proto e d = load16 e d 12"

definition ip_ihl :: "u8 list \<Rightarrow> nat" where
  "ip_ihl d = unat ((d ! ETH_HLEN) AND 0x0f)"

definition ip_protocol :: "u8 list \<Rightarrow> u8" where
  "ip_protocol d = d ! (ETH_HLEN + 9)"

definition ip_saddr :: "endian \<Rightarrow> u8 list \<Rightarrow> u32" where
  "ip_saddr e d = load32 e d (ETH_HLEN + 12)"

definition ip_daddr :: "endian \<Rightarrow> u8 list \<Rightarrow> u32" where
  "ip_daddr e d = load32 e d (ETH_HLEN + 16)"

text \<open>
  The port extraction that all three packet hooks repeat: the TCP or UDP header starts
  \<^verbatim>\<open>ip->ihl * 4\<close> bytes behind the start of the IP header; \<open>None\<close> is the hook's
  early return when that header does not fit below \<^verbatim>\<open>data_end\<close>. The result is
  \<^verbatim>\<open>(src_port, dst_port)\<close>.
\<close>

definition parse_ports :: "endian \<Rightarrow> u8 list \<Rightarrow> (u16 \<times> u16) option" where
  "parse_ports e d =
     (let l4 = ETH_HLEN + ip_ihl d * 4 in
      if ip_protocol d = IPPROTO_TCP then
        (if l4 + TCPHDR_LEN > length d then None
         else Some (bpf_ntohs e (load16 e d l4), bpf_ntohs e (load16 e d (l4 + 2))))
      else
        (if l4 + UDPHDR_LEN > length d then None
         else Some (bpf_ntohs e (load16 e d l4), bpf_ntohs e (load16 e d (l4 + 2)))))"

section \<open>Kernel maps\<close>

text \<open>
  An array map is a list of \<^verbatim>\<open>max_entries\<close> values; a lookup returns \<^verbatim>\<open>NULL\<close>
  exactly for an index outside it.
\<close>

definition array_lookup :: "'v list \<Rightarrow> u32 \<Rightarrow> 'v option" where
  "array_lookup xs idx = (if unat idx < length xs then Some (xs ! unat idx) else None)"

text \<open>
  A hash map is an association list, one pair per entry. An update with \<^verbatim>\<open>BPF_ANY\<close>
  replaces the value of a present key and inserts an absent one, unless the map already
  holds \<^verbatim>\<open>max_entries\<close> entries: then it fails and leaves the map as it was. The
  second component is the helper's return value, which no caller looks at.
\<close>

definition E2BIG :: int where "E2BIG = 7"

definition bpf_map_lookup_elem :: "('k \<times> 'v) list \<Rightarrow> 'k \<Rightarrow> 'v option" where
  "bpf_map_lookup_elem m k = map_of m k"

definition bpf_map_update_elem :: "nat \<Rightarrow> ('k \<times> 'v) list \<Rightarrow> 'k \<Rightarrow> 'v \<Rightarrow> ('k \<times> 'v) list \<times> int" where
  "bpf_map_update_elem max_entries m k v =
     (if map_of m k \<noteq> None then (AList.update k v m, 0)
      else if length m < max_entries then (AList.update k v m, 0)
      else (m, - E2BIG))"

text \<open>
  A ring buffer holds the records submitted and not yet consumed, oldest first, and
  has room for \<open>rb_space\<close> more records: \<^verbatim>\<open>bpf_ringbuf_reserve\<close> returns \<^verbatim>\<open>NULL\<close>
  when there is no room, and \<^verbatim>\<open>bpf_ringbuf_submit\<close> appends the reserved record.
\<close>

record 'a ringbuf =
  rb_records :: "'a list"
  rb_space :: nat

definition bpf_ringbuf_reserve :: "'a ringbuf \<Rightarrow> bool" where
  "bpf_ringbuf_reserve rb = (0 < rb_space rb)"

definition bpf_ringbuf_submit :: "'a ringbuf \<Rightarrow> 'a \<Rightarrow> 'a ringbuf" where
  "bpf_ringbuf_submit rb ev = rb\<lparr>rb_records := rb_records rb @ [ev], rb_space := rb_space rb - 1\<rparr>"

section \<open>The egress monitor\<close>

definition MAX_CIDR_ENTRIES :: u32 where "MAX_CIDR_ENTRIES = 256"
definition MONITOR_MAX_ENTRIES :: nat where "MONITOR_MAX_ENTRIES = 32768"

text \<open>\<^verbatim>\<open>struct egress_event\<close>; its padding is never written and is left out.\<close>

record egress_event =
  ev_src_ip :: u32
  ev_dst_ip :: u32
  ev_src_port :: u16
  ev_dst_port :: u16
  ev_protocol :: u8
  ev_bytes :: u64
  ev_timestamp_ns :: u64
  ev_pid :: u32

text \<open>
  \<^verbatim>\<open>struct cidr_range\<close>; its field \<^verbatim>\<open>mask\<close> is \<open>netmask\<close> here, since \<open>mask\<close> is a
  constant of the word library.
\<close>

record cidr_range =
  network :: u32
  netmask :: u32

text \<open>The maps of the egress monitor.\<close>

record monitor_maps =
  cluster_cidrs :: "cidr_range list"
  cidr_count :: "u32 list"
  egress_events :: "egress_event ringbuf"
  egress_bytes :: "(u32 \<times> u64) list"

text \<open>The test of one configured range, \<^verbatim>\<open>(ip & cidr->mask) == (cidr->network & cidr->mask)\<close>.\<close>

definition cidr_match :: "u32 \<Rightarrow> cidr_range \<Rightarrow> bool" where
  "cidr_match ip c = ((ip AND netmask c) = (network c AND netmask c))"

text \<open>
  The loop of \<^verbatim>\<open>is_internal_ip\<close> from index \<open>i\<close> on: it stops at index 16, breaks at
  the configured count, skips an index whose lookup fails and returns 1 at the first
  matching range.
\<close>

function cidr_loop :: "cidr_range list \<Rightarrow> u32 \<Rightarrow> u32 \<Rightarrow> nat \<Rightarrow> int" where
  "cidr_loop cidrs num_cidrs ip i =
     (if i < 16 then
        (if unat num_cidrs \<le> i then 0
         else (case array_lookup cidrs (of_nat i) of
                 None \<Rightarrow> cidr_loop cidrs num_cidrs ip (i + 1)
               | Some cidr \<Rightarrow>
                   if cidr_match ip cidr then 1
                   else cidr_loop cidrs num_cidrs ip (i + 1)))
      else 0)"
  by pat_completeness auto
termination
  by (relation "measure (\<lambda>(cidrs, num_cidrs, ip, i). 16 - i)") auto

declare cidr_loop.simps [simp del]

definition is_internal_ip :: "monitor_maps \<Rightarrow> u32 \<Rightarrow> int" where
  "is_internal_ip s ip =
     (case array_lookup (cidr_count s) 0 of
        None \<Rightarrow> 0
      | Some count \<Rightarrow>
          (let num_cidrs = (if count > MAX_CIDR_ENTRIES then MAX_CIDR_ENTRIES else count)
           in cidr_loop (cluster_cidrs s) num_cidrs ip 0))"

definition is_private_ip :: "endian \<Rightarrow> u32 \<Rightarrow> int" where
  "is_private_ip e ip =
     (let ip_host = bpf_ntohl e ip in
      if (ip_host AND 0xFF000000) = 0x0A000000 then 1
      else if (ip_host AND 0xFFF00000) = 0xAC100000 then 1
      else if (ip_host AND 0xFFFF0000) = 0xC0A80000 then 1
      else if (ip_host AND 0xFF000000) = 0x7F000000 then 1
      else 0)"

text \<open>
  The classification of a destination in \<^verbatim>\<open>monitor_egress\<close>:
  \<^verbatim>\<open>is_private_ip(ip->daddr) || is_internal_ip(ip->daddr)\<close>.
\<close>

definition dst_internal :: "endian \<Rightarrow> monitor_maps \<Rightarrow> u32 \<Rightarrow> bool" where
  "dst_internal e s ip = (is_private_ip e ip \<noteq> 0 \<or> is_internal_ip s ip \<noteq> 0)"

text \<open>
  \<^verbatim>\<open>monitor_egress\<close>, with the value of \<^verbatim>\<open>bpf_ktime_get_ns()\<close> as \<open>now\<close>. It returns
  the maps after the call and the verdict.
\<close>

definition monitor_egress :: "endian \<Rightarrow> u64 \<Rightarrow> sk_buff \<Rightarrow> monitor_maps \<Rightarrow> monitor_maps \<times> int" where
  "monitor_egress e now skb s =
     (let d = skb_data skb in
      if ETH_HLEN > length d then (s, TC_ACT_OK)
      else if eth_h_proto e d \<noteq> bpf_htons e ETH_P_IP then (s, TC_ACT_OK)
      else if ETH_HLEN + IPHDR_LEN > length d then (s, TC_ACT_OK)
      else if ip_protocol d \<noteq> IPPROTO_TCP \<and> ip_protocol d \<noteq> IPPROTO_UDP then (s, TC_ACT_OK)
      else if dst_internal e s (ip_daddr e d) then (s, TC_ACT_OK)
      else (case parse_ports e d of
              None \<Rightarrow> (s, TC_ACT_OK)
            | Some (src_port, dst_port) \<Rightarrow>
                (let s1 = (case bpf_map_lookup_elem (egress_bytes s) (ip_daddr e d) of
                             Some bytes \<Rightarrow>
                               s\<lparr>egress_bytes :=
                                   AList.update (ip_daddr e d) (bytes + ucast (skb_len skb)) (egress_bytes s)\<rparr>
                           | None \<Rightarrow>
                               s\<lparr>egress_bytes :=
                                   fst (bpf_map_update_elem MONITOR_MAX_ENTRIES (egress_bytes s)
                                          (ip_daddr e d) (ucast (skb_len skb)))\<rparr>)
                 in if \<not> bpf_ringbuf_reserve (egress_events s1) then (s1, TC_ACT_OK)
                    else (s1\<lparr>egress_events :=
                               bpf_ringbuf_submit (egress_events s1)
                                 \<lparr>ev_src_ip = ip_saddr e d, ev_dst_ip = ip_daddr e d,
                                  ev_src_port = src_port, ev_dst_port = dst_port,
                                  ev_protocol = ip_protocol d, ev_bytes = ucast (skb_len skb),
                                  ev_timestamp_ns = now, ev_pid = 0\<rparr>\<rparr>, TC_ACT_OK))))"

section \<open>The flow tracker\<close>

definition MAX_ENTRIES :: nat where "MAX_ENTRIES = 65536"
definition TASK_COMM_LEN :: nat where "TASK_COMM_LEN = 16"

record flow_key =
  src_ip :: u32
  dst_ip :: u32
  src_port :: u16
  dst_port :: u16
  protocol :: u8
  pad :: "u8 list"

record flow_metrics =
  bytes_sent :: u64
  bytes_received :: u64
  packets_sent :: u64
  packets_received :: u64
  start_time_ns :: u64
  last_seen_ns :: u64
  pid :: u32
  uid :: u32
  comm :: "u8 list"

text \<open>\<^verbatim>\<open>struct flow_event\<close>; its padding is never written and is left out.\<close>

record flow_event =
  fe_key :: flow_key
  fe_metrics :: flow_metrics
  event_type :: u8
  direction :: u8

text \<open>The maps of the flow tracker (its \<^verbatim>\<open>config\<close> map is never read or written).\<close>

record tracker_maps =
  flow_map :: "(flow_key \<times> flow_metrics) list"
  events :: "flow_event ringbuf"

text \<open>
  What the helpers \<^verbatim>\<open>bpf_ktime_get_ns\<close>, \<^verbatim>\<open>bpf_get_current_pid_tgid\<close>,
  \<^verbatim>\<open>bpf_get_current_uid_gid\<close> and \<^verbatim>\<open>bpf_get_current_comm\<close> return during one
  call of a hook.
\<close>

record task =
  ktime_ns :: u64
  pid_tgid :: u64
  uid_gid :: u64
  task_comm :: "u8 list"

definition create_flow_key :: "u32 \<Rightarrow> u32 \<Rightarrow> u16 \<Rightarrow> u16 \<Rightarrow> u8 \<Rightarrow> flow_key" where
  "create_flow_key srcip dstip srcport dstport proto =
     \<lparr>src_ip = srcip, dst_ip = dstip, src_port = srcport, dst_port = dstport,
      protocol = proto, pad = [0, 0, 0]\<rparr>"

text \<open>The entry that \<^verbatim>\<open>track_egress\<close> builds for a new flow; the struct starts zeroed.\<close>

definition new_metrics :: "task \<Rightarrow> sk_buff \<Rightarrow> flow_metrics" where
  "new_metrics env skb =
     \<lparr>bytes_sent = ucast (skb_len skb), bytes_received = 0,
      packets_sent = 1, packets_received = 0,
      start_time_ns = ktime_ns env, last_seen_ns = ktime_ns env,
      pid = ucast (drop_bit 32 (pid_tgid env)),
      uid = ucast (uid_gid env AND 0xFFFFFFFF),
      comm = task_comm env\<rparr>"

definition track_egress :: "endian \<Rightarrow> task \<Rightarrow> sk_buff \<Rightarrow> tracker_maps \<Rightarrow> tracker_maps \<times> int" where
  "track_egress e env skb s =
     (let d = skb_data skb in
      if ETH_HLEN > length d then (s, 1)
      else if bpf_ntohs e (eth_h_proto e d) \<noteq> ETH_P_IP then (s, 1)
      else if ETH_HLEN + IPHDR_LEN > length d then (s, 1)
      else if ip_protocol d \<noteq> IPPROTO_TCP \<and> ip_protocol d \<noteq> IPPROTO_UDP then (s, 1)
      else (case parse_ports e d of
              None \<Rightarrow> (s, 1)
            | Some (srcport, dstport) \<Rightarrow>
                (let key = create_flow_key (ip_saddr e d) (ip_daddr e d) srcport dstport (ip_protocol d);
                     now = ktime_ns env
                 in case bpf_map_lookup_elem (flow_map s) key of
                      None \<Rightarrow>
                        (s\<lparr>flow_map :=
                             fst (bpf_map_update_elem MAX_ENTRIES (flow_map s) key (new_metrics env skb))\<rparr>, 1)
                    | Some metrics \<Rightarrow>
                        (s\<lparr>flow_map :=
                             AList.update key
                               (metrics\<lparr>bytes_sent := bytes_sent metrics + ucast (skb_len skb),
                                        packets_sent := packets_sent metrics + 1,
                                        last_seen_ns := now\<rparr>)
                               (flow_map s)\<rparr>, 1))))"

definition track_ingress :: "endian \<Rightarrow> task \<Rightarrow> sk_buff \<Rightarrow> tracker_maps \<Rightarrow> tracker_maps \<times> int" where
  "track_ingress e env skb s =
     (let d = skb_data skb in
      if ETH_HLEN > length d then (s, 1)
      else if bpf_ntohs e (eth_h_proto e d) \<noteq> ETH_P_IP then (s, 1)
      else if ETH_HLEN + IPHDR_LEN > length d then (s, 1)
      else if ip_protocol d \<noteq> IPPROTO_TCP \<and> ip_protocol d \<noteq> IPPROTO_UDP then (s, 1)
      else (case parse_ports e d of
              None \<Rightarrow> (s, 1)
            | Some (srcport, dstport) \<Rightarrow>
                (let key = create_flow_key (ip_daddr e d) (ip_saddr e d) dstport srcport (ip_protocol d);
                     now = ktime_ns env
                 in case bpf_map_lookup_elem (flow_map s) key of
                      Some metrics \<Rightarrow>
                        (s\<lparr>flow_map :=
                             AList.update key
                               (metrics\<lparr>bytes_received := bytes_received metrics + ucast (skb_len skb),
                                        packets_received := packets_received metrics + 1,
                                        last_seen_ns := now\<rparr>)
                               (flow_map s)\<rparr>, 1)
                    | None \<Rightarrow> (s, 1))))"

text \<open>
  \<^verbatim>\<open>flush_flows\<close> on one element of the iteration: \<open>ctx\<close> holds \<^verbatim>\<open>ctx->key\<close> and
  \<^verbatim>\<open>ctx->value\<close>, \<open>None\<close> for a null pointer.
\<close>

definition flush_flows :: "flow_key option \<times> flow_metrics option \<Rightarrow> tracker_maps \<Rightarrow> tracker_maps \<times> int" where
  "flush_flows ctx s =
     (case ctx of
        (Some key, Some metrics) \<Rightarrow>
          if \<not> bpf_ringbuf_reserve (events s) then (s, 0)
          else (s\<lparr>events :=
                    bpf_ringbuf_submit (events s)
                      \<lparr>fe_key = key, fe_metrics = metrics, event_type = 0, direction = 0\<rparr>\<rparr>, 0)
      | _ \<Rightarrow> (s, 0))"

text \<open>
  Modelled from the spec: the map iterator that drives \<^verbatim>\<open>flush_flows\<close> belongs to the
  kernel and is not among the sources. It calls the program once for each entry of the
  table, in table order, then once more with null pointers; a call that returns a value
  other than 0 ends the walk. The second component counts the entries visited.
\<close>

fun flush_walk :: "(flow_key \<times> flow_metrics) list \<Rightarrow> tracker_maps \<Rightarrow> tracker_maps \<times> nat" where
  "flush_walk [] s = (fst (flush_flows (None, None) s), 0)"
| "flush_walk ((k, m) # es) s =
     (case flush_flows (Some k, Some m) s of
        (s', rc) \<Rightarrow>
          if rc \<noteq> 0 then (s', 1)
          else (case flush_walk es s' of (s'', n) \<Rightarrow> (s'', Suc n)))"

definition flush :: "tracker_maps \<Rightarrow> tracker_maps \<times> nat" where
  "flush s = flush_walk (flow_map s) s"

subsection \<open>Runs of the flow tracker\<close>

datatype core_op = Outbound task sk_buff | Inbound task sk_buff | Flush

fun core_step :: "endian \<Rightarrow> tracker_maps \<Rightarrow> core_op \<Rightarrow> tracker_maps" where
  "core_step e s (Outbound env skb) = fst (track_egress e env skb s)"
| "core_step e s (Inbound env skb) = fst (track_ingress e env skb s)"
| "core_step e s Flush = fst (flush s)"

definition run :: "endian \<Rightarrow> core_op list \<Rightarrow> tracker_maps \<Rightarrow> tracker_maps" where
  "run e ops s = foldl (core_step e) s ops"

text \<open>
  The five values a tracker hook has parsed when it builds its key: source and
  destination address, source and destination port, protocol; \<open>None\<close> when the hook
  returns before that.
\<close>

definition l4_tuple :: "endian \<Rightarrow> u8 list \<Rightarrow> (u32 \<times> u32 \<times> u16 \<times> u16 \<times> u8) option" where
  "l4_tuple e d =
     (if ETH_HLEN > length d \<or> bpf_ntohs e (eth_h_proto e d) \<noteq> ETH_P_IP
         \<or> ETH_HLEN + IPHDR_LEN > length d
         \<or> (ip_protocol d \<noteq> IPPROTO_TCP \<and> ip_protocol d \<noteq> IPPROTO_UDP)
      then None
      else (case parse_ports e d of
              None \<Rightarrow> None
            | Some (srcport, dstport) \<Rightarrow>
                Some (ip_saddr e d, ip_daddr e d, srcport, dstport, ip_protocol d)))"

text \<open>The key that \<^verbatim>\<open>track_egress\<close>, respectively \<^verbatim>\<open>track_ingress\<close>, looks up for a packet.\<close>

definition egress_key :: "endian \<Rightarrow> sk_buff \<Rightarrow> flow_key option" where
  "egress_key e skb =
     (case l4_tuple e (skb_data skb) of
        None \<Rightarrow> None
      | Some (sa, da, sp, dp, pr) \<Rightarrow> Some (create_flow_key sa da sp dp pr))"

definition ingress_key :: "endian \<Rightarrow> sk_buff \<Rightarrow> flow_key option" where
  "ingress_key e skb =
     (case l4_tuple e (skb_data skb) of
        None \<Rightarrow> None
      | Some (sa, da, sp, dp, pr) \<Rightarrow> Some (create_flow_key da sa dp sp pr))"

subsection \<open>Concurrent calls of the outbound hook\<close>

text \<open>
  Several CPUs run \<^verbatim>\<open>track_egress\<close> at the same time, each on its own packet. Parsing
  is local to a call. The steps of a call that touch the flow map are the lookup, then
  either the insertion by \<^verbatim>\<open>bpf_map_update_elem\<close>, or the two atomic additions and the
  store to \<^verbatim>\<open>last_seen_ns\<close>; each of them is one indivisible step, and steps of
  different CPUs happen in any order. The program counter of a call says which step
  comes next, and carries the key that the call has built.
\<close>

datatype pc = AtLookup | AtInsert flow_key | AtAddBytes flow_key | AtAddPackets flow_key
  | AtStoreLastSeen flow_key | Returned

record cpu =
  cpu_pc :: pc
  cpu_env :: task
  cpu_skb :: sk_buff

text \<open>
  A write through the pointer that the lookup returned. It is taken to reach the entry
  that the key has at the time of the write; in the schedules considered below no entry
  is replaced while a call holds a pointer to it.
\<close>

definition entry_write :: "flow_key \<Rightarrow> (flow_metrics \<Rightarrow> flow_metrics) \<Rightarrow> tracker_maps \<Rightarrow> tracker_maps" where
  "entry_write k f s =
     (case bpf_map_lookup_elem (flow_map s) k of
        None \<Rightarrow> s
      | Some m \<Rightarrow> s\<lparr>flow_map := AList.update k (f m) (flow_map s)\<rparr>)"

definition cpu_step :: "endian \<Rightarrow> cpu \<Rightarrow> tracker_maps \<Rightarrow> cpu \<times> tracker_maps" where
  "cpu_step e c s =
     (case cpu_pc c of
        AtLookup \<Rightarrow>
          (case egress_key e (cpu_skb c) of
             None \<Rightarrow> (c\<lparr>cpu_pc := Returned\<rparr>, s)
           | Some key \<Rightarrow>
               (case bpf_map_lookup_elem (flow_map s) key of
                  None \<Rightarrow> (c\<lparr>cpu_pc := AtInsert key\<rparr>, s)
                | Some metrics \<Rightarrow> (c\<lparr>cpu_pc := AtAddBytes key\<rparr>, s)))
      | AtInsert key \<Rightarrow>
          (c\<lparr>cpu_pc := Returned\<rparr>,
           s\<lparr>flow_map := fst (bpf_map_update_elem MAX_ENTRIES (flow_map s) key
                                 (new_metrics (cpu_env c) (cpu_skb c)))\<rparr>)
      | AtAddBytes key \<Rightarrow>
          (c\<lparr>cpu_pc := AtAddPackets key\<rparr>,
           entry_write key (\<lambda>m. m\<lparr>bytes_sent := bytes_sent m + ucast (skb_len (cpu_skb c))\<rparr>) s)
      | AtAddPackets key \<Rightarrow>
          (c\<lparr>cpu_pc := AtStoreLastSeen key\<rparr>,
           entry_write key (\<lambda>m. m\<lparr>packets_sent := packets_sent m + 1\<rparr>) s)
      | AtStoreLastSeen key \<Rightarrow>
          (c\<lparr>cpu_pc := Returned\<rparr>,
           entry_write key (\<lambda>m. m\<lparr>last_seen_ns := ktime_ns (cpu_env c)\<rparr>) s)
      | Returned \<Rightarrow> (c, s))"

text \<open>
  A configuration holds the maps and the calls in progress; a schedule names, step by
  step, the CPU that moves next.
\<close>

definition sched_step :: "endian \<Rightarrow> tracker_maps \<times> cpu list \<Rightarrow> nat \<Rightarrow> tracker_maps \<times> cpu list" where
  "sched_step e cfg i =
     (case cfg of (s, cpus) \<Rightarrow>
        if i < length cpus
        then (case cpu_step e (cpus ! i) s of (c', s') \<Rightarrow> (s', cpus[i := c']))
        else (s, cpus))"

definition run_sched :: "endian \<Rightarrow> nat list \<Rightarrow> tracker_maps \<times> cpu list \<Rightarrow> tracker_maps \<times> cpu list" where
  "run_sched e sched cfg = foldl (sched_step e) cfg sched"

definition entering :: "task \<Rightarrow> sk_buff \<Rightarrow> cpu" where
  "entering env skb = \<lparr>cpu_pc = AtLookup, cpu_env = env, cpu_skb = skb\<rparr>"

section \<open>Notions of the specification\<close>

text \<open>
  The address \<open>a.b.c.d\<close> in host byte order, and membership of an address in the block
  \<open>base/len\<close>: the leading \<open>len\<close> bits agree. These follow the specification's
  wording, for comparison with the tests of \<^verbatim>\<open>is_private_ip\<close>.
\<close>

definition ipv4 :: "nat \<Rightarrow> nat \<Rightarrow> nat \<Rightarrow> nat \<Rightarrow> u32" where
  "ipv4 a b c d = of_nat (a * 2 ^ 24 + b * 2 ^ 16 + c * 2 ^ 8 + d)"

definition in_prefix :: "u32 \<Rightarrow> nat \<Rightarrow> u32 \<Rightarrow> bool" where
  "in_prefix base len addr = (drop_bit (32 - len) addr = drop_bit (32 - len) base)"

definition private_range :: "u32 \<Rightarrow> bool" where
  "private_range addr =
     (in_prefix (ipv4 10 0 0 0) 8 addr \<or> in_prefix (ipv4 172 16 0 0) 12 addr \<or>
      in_prefix (ipv4 192 168 0 0) 16 addr \<or> in_prefix (ipv4 127 0 0 0) 8 addr)"

text \<open>The snapshot event of one table entry.\<close>

definition snapshot :: "flow_key \<times> flow_metrics \<Rightarrow> flow_event" where
  "snapshot km = \<lparr>fe_key = fst km, fe_metrics = snd km, event_type = 0, direction = 0\<rparr>"

text \<open>A run that consists of inbound packets only.\<close>

definition inbound_ops :: "(task \<times> sk_buff) list \<Rightarrow> core_op list" where
  "inbound_ops pkts = map (\<lambda>(env, skb). Inbound env skb) pkts"







section \<open>Example inputs\<close>

text \<open>
  An Ethernet frame with an IPv4 header of 20 bytes and a TCP header, from the four
  address bytes and two port bytes of each end.
\<close>

definition frame_tcp :: "u8 list \<Rightarrow> u8 list \<Rightarrow> u8 list \<Rightarrow> u8 list \<Rightarrow> u8 list" where
  "frame_tcp sa da sp dp =
     replicate 12 0 @ [0x08, 0x00] @ [0x45, 0, 0, 0x56, 0, 0, 0, 0, 64, 6, 0, 0] @ sa @ da
       @ sp @ dp @ replicate 16 0"

text \<open>10.0.0.5:40000 to 93.184.216.34:443, the reply to it, and a packet to 10.1.1.1.\<close>

definition pkt_out :: sk_buff where
  "pkt_out = \<lparr>skb_len = 100,
     skb_data = frame_tcp [10, 0, 0, 5] [93, 184, 216, 34] [0x9C, 0x40] [0x01, 0xBB]\<rparr>"

definition pkt_in :: sk_buff where
  "pkt_in = \<lparr>skb_len = 1500,
     skb_data = frame_tcp [93, 184, 216, 34] [10, 0, 0, 5] [0x01, 0xBB] [0x9C, 0x40]\<rparr>"

definition pkt_internal :: sk_buff where
  "pkt_internal = \<lparr>skb_len = 100,
     skb_data = frame_tcp [10, 0, 0, 5] [10, 1, 1, 1] [0x9C, 0x40] [0x01, 0xBB]\<rparr>"

definition env0 :: task where
  "env0 = \<lparr>ktime_ns = 1000, pid_tgid = 0x0000162E0000162F, uid_gid = 0x000003E8000003E9,
            task_comm = [0x63, 0x75, 0x72, 0x6C] @ replicate 12 0\<rparr>"

text \<open>The keys of \<open>pkt_out\<close> and of \<open>pkt_internal\<close> on a little-endian target.\<close>

definition key_out :: flow_key where
  "key_out = create_flow_key 0x0500000A 0x22D8B85D 40000 443 6"

definition key_internal :: flow_key where
  "key_internal = create_flow_key 0x0500000A 0x0101010A 40000 443 6"

definition metrics0 :: flow_metrics where
  "metrics0 = \<lparr>bytes_sent = 0, bytes_received = 0, packets_sent = 0, packets_received = 0,
     start_time_ns = 0, last_seen_ns = 0, pid = 0, uid = 0, comm = replicate 16 0\<rparr>"

definition tracker_empty :: tracker_maps where
  "tracker_empty = \<lparr>flow_map = [], events = \<lparr>rb_records = [], rb_space = 4\<rparr>\<rparr>"

definition tracker_one :: tracker_maps where
  "tracker_one =
     \<lparr>flow_map = [(key_out, metrics0\<lparr>bytes_sent := 40, packets_sent := 2, start_time_ns := 5, pid := 77\<rparr>)],
      events = \<lparr>rb_records = [], rb_space = 4\<rparr>\<rparr>"

definition tracker_two :: tracker_maps where
  "tracker_two =
     \<lparr>flow_map = [(key_out, metrics0), (key_internal, metrics0)],
      events = \<lparr>rb_records = [], rb_space = 1\<rparr>\<rparr>"


text \<open>A table that holds \<^verbatim>\<open>MAX_ENTRIES\<close> flows, none of them the flow of \<open>pkt_out\<close>.\<close>

definition full_table :: "(flow_key \<times> flow_metrics) list" where
  "full_table = map (\<lambda>i. (create_flow_key (of_nat i) 0 0 0 6, metrics0)) [0..<65536]"

definition tracker_full :: tracker_maps where
  "tracker_full = \<lparr>flow_map = full_table, events = \<lparr>rb_records = [], rb_space = 4\<rparr>\<rparr>"






text \<open>
  The range 203.0.113.0/24 as a little-endian target holds it, and monitor maps with no
  configured range, with that range at index 0, and with that range at index 16 behind
  sixteen ranges that match 1.1.1.1 only.
\<close>

definition cidr_example :: cidr_range where
  "cidr_example = \<lparr>network = 0x007100CB, netmask = 0x00FFFFFF\<rparr>"

definition monitor_empty :: monitor_maps where
  "monitor_empty =
     \<lparr>cluster_cidrs = replicate 256 \<lparr>network = 0, netmask = 0\<rparr>,
      cidr_count = [0],
      egress_events = \<lparr>rb_records = [], rb_space = 4\<rparr>,
      egress_bytes = []\<rparr>"

definition maps_one_cidr :: monitor_maps where
  "maps_one_cidr =
     \<lparr>cluster_cidrs = cidr_example # replicate 255 \<lparr>network = 0, netmask = 0\<rparr>,
      cidr_count = [1],
      egress_events = \<lparr>rb_records = [], rb_space = 4\<rparr>,
      egress_bytes = []\<rparr>"

definition maps_17_cidrs :: monitor_maps where
  "maps_17_cidrs =
     \<lparr>cluster_cidrs = replicate 16 \<lparr>network = 0x01010101, netmask = 0xFFFFFFFF\<rparr>
         @ cidr_example # replicate 239 \<lparr>network = 0, netmask = 0\<rparr>,
      cidr_count = [17],
      egress_events = \<lparr>rb_records = [], rb_space = 4\<rparr>,
      egress_bytes = []\<rparr>"

section \<open>The address classifier\<close>

lemma prefix_match:
  fixes h b :: u32
  shows "(h AND NOT (mask n) = b AND NOT (mask n)) \<longleftrightarrow> drop_bit n h = drop_bit n b"
proof
  assume a: "h AND NOT (mask n) = b AND NOT (mask n)"
  show "drop_bit n h = drop_bit n b"
  proof (rule bit_eqI)
    fix i
    have "bit (h AND NOT (mask n)) (n + i) = bit (b AND NOT (mask n)) (n + i)" using a by simp
    then show "bit (drop_bit n h) i = bit (drop_bit n b) i"
      by (auto simp: bit_simps dest: bit_imp_le_length)
  qed
next
  assume a: "drop_bit n h = drop_bit n b"
  show "h AND NOT (mask n) = b AND NOT (mask n)"
  proof (rule bit_eqI)
    fix i
    show "bit (h AND NOT (mask n)) i = bit (b AND NOT (mask n)) i"
    proof (cases "n \<le> i")
      case True
      then obtain j where j: "i = n + j" using le_Suc_ex by blast
      have "bit (drop_bit n h) j = bit (drop_bit n b) j" using a by simp
      then show ?thesis using j by (auto simp: bit_simps)
    next
      case False
      then show ?thesis by (auto simp: bit_simps)
    qed
  qed
qed

lemma in_prefix_8: "in_prefix b 8 h \<longleftrightarrow> (h AND 0xFF000000) = (b AND 0xFF000000)"
proof -
  have "(0xFF000000::u32) = NOT (mask 24)" by (simp add: mask_eq_exp_minus_1)
  moreover have "in_prefix b 8 h \<longleftrightarrow> drop_bit 24 h = drop_bit 24 b" by (simp add: in_prefix_def)
  ultimately show ?thesis using prefix_match [of h 24 b] by (simp only:)
qed

lemma in_prefix_12: "in_prefix b 12 h \<longleftrightarrow> (h AND 0xFFF00000) = (b AND 0xFFF00000)"
proof -
  have "(0xFFF00000::u32) = NOT (mask 20)" by (simp add: mask_eq_exp_minus_1)
  moreover have "in_prefix b 12 h \<longleftrightarrow> drop_bit 20 h = drop_bit 20 b" by (simp add: in_prefix_def)
  ultimately show ?thesis using prefix_match [of h 20 b] by (simp only:)
qed

lemma in_prefix_16: "in_prefix b 16 h \<longleftrightarrow> (h AND 0xFFFF0000) = (b AND 0xFFFF0000)"
proof -
  have "(0xFFFF0000::u32) = NOT (mask 16)" by (simp add: mask_eq_exp_minus_1)
  moreover have "in_prefix b 16 h \<longleftrightarrow> drop_bit 16 h = drop_bit 16 b" by (simp add: in_prefix_def)
  ultimately show ?thesis using prefix_match [of h 16 b] by (simp only:)
qed

lemma is_private_ip_iff: "is_private_ip e ip \<noteq> 0 \<longleftrightarrow> private_range (bpf_ntohl e ip)"
  by (simp add: is_private_ip_def private_range_def in_prefix_8 in_prefix_12 in_prefix_16 ipv4_def Let_def)

text \<open>
  The conversion to host byte order of a loaded 4-byte field is the big-endian reading
  of the four packet bytes, on either target; hence the private-range test of a
  destination address does not depend on the byte order of the target.
\<close>

lemma masks32:
  "(0x000000ff :: u32) = mask 8"
  "(0x0000ff00 :: u32) = push_bit 8 (mask 8)"
  "(0x00ff0000 :: u32) = push_bit 16 (mask 8)"
  "(0xff000000 :: u32) = push_bit 24 (mask 8)"
  by (simp_all add: mask_eq_exp_minus_1)

lemma bit_ucast8: "bit (ucast (b :: u8) :: u32) n \<longleftrightarrow> n < 8 \<and> bit b n"
  by (auto simp: bit_simps dest: bit_imp_le_length)

lemma bswap32_bytes:
  fixes b0 b1 b2 b3 :: u8
  shows "bswap32 (push_bit 24 (ucast b3) OR push_bit 16 (ucast b2) OR push_bit 8 (ucast b1) OR ucast b0)
       = push_bit 24 (ucast b0) OR push_bit 16 (ucast b1) OR push_bit 8 (ucast b2) OR ucast b3"
  unfolding bswap32_def masks32
proof (rule bit_eqI)
  fix n :: nat
  consider "n < 8" | "8 \<le> n \<and> n < 16" | "16 \<le> n \<and> n < 24" | "24 \<le> n \<and> n < 32" | "32 \<le> n"
    by linarith
  then show "bit (push_bit 24 ((push_bit 24 (ucast b3) OR push_bit 16 (ucast b2) OR push_bit 8 (ucast b1) OR ucast b0) AND mask 8)
        OR push_bit 8 ((push_bit 24 (ucast b3) OR push_bit 16 (ucast b2) OR push_bit 8 (ucast b1) OR ucast b0) AND push_bit 8 (mask 8))
        OR drop_bit 8 ((push_bit 24 (ucast b3) OR push_bit 16 (ucast b2) OR push_bit 8 (ucast b1) OR ucast b0) AND push_bit 16 (mask 8))
        OR drop_bit 24 ((push_bit 24 (ucast b3) OR push_bit 16 (ucast b2) OR push_bit 8 (ucast b1) OR ucast b0) AND push_bit 24 (mask 8)) :: u32) n
      = bit (push_bit 24 (ucast b0) OR push_bit 16 (ucast b1) OR push_bit 8 (ucast b2) OR ucast b3 :: u32) n"
  proof cases
    case 1
    then show ?thesis
      by (auto simp add: bit_or_iff bit_and_iff bit_push_bit_iff bit_drop_bit_eq bit_mask_iff bit_ucast8)
  next
    case 2
    then show ?thesis
      by (auto simp add: bit_or_iff bit_and_iff bit_push_bit_iff bit_drop_bit_eq bit_mask_iff bit_ucast8)
  next
    case 3
    then show ?thesis
      by (auto simp add: bit_or_iff bit_and_iff bit_push_bit_iff bit_drop_bit_eq bit_mask_iff bit_ucast8)
  next
    case 4
    then show ?thesis
      by (auto simp add: bit_or_iff bit_and_iff bit_push_bit_iff bit_drop_bit_eq bit_mask_iff bit_ucast8)
  next
    case 5
    then show ?thesis
      by (auto simp add: bit_or_iff bit_and_iff bit_push_bit_iff bit_drop_bit_eq bit_mask_iff bit_ucast8)
  qed
qed

lemma ntohl_load32: "bpf_ntohl e (load32 e d off) = load32 BigEndian d off"
  by (cases e) (simp_all add: bpf_ntohl_def load32_def bswap32_bytes)

lemma is_private_ip_daddr:
  "is_private_ip e (ip_daddr e d) \<noteq> 0 \<longleftrightarrow> private_range (load32 BigEndian d (ETH_HLEN + 16))"
  by (simp add: is_private_ip_iff ip_daddr_def ntohl_load32)

lemma cidr_loop_iff:
  "cidr_loop cidrs num ip i \<noteq> 0 \<longleftrightarrow>
     (\<exists>j. i \<le> j \<and> j < 16 \<and> j < unat num \<and>
          (\<exists>c. array_lookup cidrs (of_nat j) = Some c \<and> cidr_match ip c))"
proof (induction cidrs num ip i rule: cidr_loop.induct)
  case (1 cidrs num ip i)
  show ?case
  proof (cases "i < 16 \<and> i < unat num")
    case False
    then show ?thesis by (subst cidr_loop.simps) auto
  next
    case True
    note b = this
    show ?thesis
    proof (cases "array_lookup cidrs (of_nat i)")
      case None
      have "cidr_loop cidrs num ip i = cidr_loop cidrs num ip (i + 1)"
        using b None by (subst cidr_loop.simps) simp
      moreover have "cidr_loop cidrs num ip (i + 1) \<noteq> 0 \<longleftrightarrow>
          (\<exists>j. i + 1 \<le> j \<and> j < 16 \<and> j < unat num \<and>
             (\<exists>c. array_lookup cidrs (of_nat j) = Some c \<and> cidr_match ip c))"
        using "1.IH"(1) b None by simp
      ultimately show ?thesis using None
        by (metis Suc_eq_plus1 Suc_leI le_neq_implies_less option.distinct(1) Suc_leD)
    next
      case (Some c)
      show ?thesis
      proof (cases "cidr_match ip c")
        case True
        have "cidr_loop cidrs num ip i = 1"
          using b Some True by (subst cidr_loop.simps) simp
        then show ?thesis using b Some True by auto
      next
        case False
        have "cidr_loop cidrs num ip i = cidr_loop cidrs num ip (i + 1)"
          using b Some False by (subst cidr_loop.simps) simp
        moreover have "cidr_loop cidrs num ip (i + 1) \<noteq> 0 \<longleftrightarrow>
          (\<exists>j. i + 1 \<le> j \<and> j < 16 \<and> j < unat num \<and>
             (\<exists>c. array_lookup cidrs (of_nat j) = Some c \<and> cidr_match ip c))"
          using "1.IH"(2) b Some False by simp
        ultimately show ?thesis using Some False
          by (metis Suc_eq_plus1 Suc_leI le_neq_implies_less option.inject Suc_leD)
      qed
    qed
  qed
qed

text \<open>
  Claim C1, as amended. The classifier decides Internal for an address exactly when the
  address lies in 10.0.0.0/8, 172.16.0.0/12, 192.168.0.0/16 or 127.0.0.0/8, or when one
  of the configured ranges at an index below both the configured count and 16 matches
  it by \<^verbatim>\<open>(address & mask) == (network & mask)\<close>; entries at index 16 and above are
  never examined. As in the code, the private ranges are tested on the value that
  \<^verbatim>\<open>bpf_ntohl\<close> gives for the address, and the configured ranges on the address as the
  hook holds it, against the network and mask as the map holds them.
\<close>

theorem classifier_internal_iff:
  "dst_internal e s ip \<longleftrightarrow>
     private_range (bpf_ntohl e ip) \<or>
     (\<exists>count. array_lookup (cidr_count s) 0 = Some count \<and>
        (\<exists>i. i < unat count \<and> i < 16 \<and>
           (\<exists>c. array_lookup (cluster_cidrs s) (of_nat i) = Some c \<and> cidr_match ip c)))"
proof (cases "array_lookup (cidr_count s) 0")
  case None
  then show ?thesis
    by (simp add: dst_internal_def is_private_ip_iff is_internal_ip_def)
next
  case (Some count)
  have clamp: "\<And>j. j < 16 \<Longrightarrow>
      j < unat (if count > MAX_CIDR_ENTRIES then MAX_CIDR_ENTRIES else count) \<longleftrightarrow> j < unat count"
    by (auto simp: MAX_CIDR_ENTRIES_def word_less_nat_alt)
  have "is_internal_ip s ip \<noteq> 0 \<longleftrightarrow>
      (\<exists>j. j < unat count \<and> j < 16 \<and>
         (\<exists>c. array_lookup (cluster_cidrs s) (of_nat j) = Some c \<and> cidr_match ip c))"
    using clamp by (auto simp: is_internal_ip_def Some cidr_loop_iff Let_def simp del: of_nat_less_iff)
  then show ?thesis
    by (simp add: dst_internal_def is_private_ip_iff Some)
qed

text \<open>
  An instance of C1: with the single configured range 203.0.113.0/24 at index 0, the
  public address 203.0.113.42 is Internal.
\<close>

theorem classifier_internal_iff_witness:
  "bpf_ntohl LittleEndian 0x2A7100CB = ipv4 203 0 113 42 \<and>
   \<not> private_range (ipv4 203 0 113 42) \<and>
   dst_internal LittleEndian maps_one_cidr 0x2A7100CB"
proof -
  have p: "bpf_ntohl LittleEndian 0x2A7100CB = ipv4 203 0 113 42 \<and>
           \<not> private_range (ipv4 203 0 113 42)"
    by (simp add: bpf_ntohl_def bswap32_def ipv4_def private_range_def in_prefix_def drop_bit_eq_div)
  have "array_lookup (cidr_count maps_one_cidr) 0 = Some 1 \<and>
        (0::nat) < unat (1::u32) \<and> (0::nat) < 16 \<and>
        array_lookup (cluster_cidrs maps_one_cidr) (of_nat 0) = Some cidr_example \<and>
        cidr_match 0x2A7100CB cidr_example"
    by (simp add: maps_one_cidr_def array_lookup_def cidr_match_def cidr_example_def)
  then show ?thesis
    using p classifier_internal_iff [of LittleEndian maps_one_cidr "0x2A7100CB"] by blast
qed

text \<open>
  Claim C1 as stated fails: with 17 configured ranges, the range at index 16 lies below
  the configured count and matches 203.0.113.42, yet the address is classified External.
\<close>

theorem classifier_entry_16_counterexample:
  "bpf_ntohl LittleEndian 0x2A7100CB = ipv4 203 0 113 42 \<and>
   array_lookup (cidr_count maps_17_cidrs) 0 = Some 17 \<and>
   (16::nat) < unat (17::u32) \<and>
   array_lookup (cluster_cidrs maps_17_cidrs) 16 = Some cidr_example \<and>
   cidr_match 0x2A7100CB cidr_example \<and>
   \<not> dst_internal LittleEndian maps_17_cidrs 0x2A7100CB"
proof -
  have a: "bpf_ntohl LittleEndian 0x2A7100CB = ipv4 203 0 113 42"
    by (simp add: bpf_ntohl_def bswap32_def ipv4_def)
  have b: "array_lookup (cidr_count maps_17_cidrs) 0 = Some 17 \<and>
   (16::nat) < unat (17::u32) \<and>
   array_lookup (cluster_cidrs maps_17_cidrs) 16 = Some cidr_example \<and>
   cidr_match 0x2A7100CB cidr_example \<and>
   \<not> dst_internal LittleEndian maps_17_cidrs 0x2A7100CB"
    by code_simp
  show ?thesis by (rule conjI [OF a b])
qed

section \<open>The flow tracker hooks in terms of the key they look up\<close>

lemma track_egress_eq:
  "track_egress e env skb s =
     (case egress_key e skb of
        None \<Rightarrow> (s, 1)
      | Some k \<Rightarrow>
          (case bpf_map_lookup_elem (flow_map s) k of
             None \<Rightarrow> (s\<lparr>flow_map := fst (bpf_map_update_elem MAX_ENTRIES (flow_map s) k (new_metrics env skb))\<rparr>, 1)
           | Some m \<Rightarrow>
               (s\<lparr>flow_map := AList.update k
                    (m\<lparr>bytes_sent := bytes_sent m + ucast (skb_len skb),
                       packets_sent := packets_sent m + 1,
                       last_seen_ns := ktime_ns env\<rparr>) (flow_map s)\<rparr>, 1)))"
  by (simp add: track_egress_def egress_key_def l4_tuple_def Let_def split: option.splits prod.splits)

lemma track_ingress_eq:
  "track_ingress e env skb s =
     (case ingress_key e skb of
        None \<Rightarrow> (s, 1)
      | Some k \<Rightarrow>
          (case bpf_map_lookup_elem (flow_map s) k of
             None \<Rightarrow> (s, 1)
           | Some m \<Rightarrow>
               (s\<lparr>flow_map := AList.update k
                    (m\<lparr>bytes_received := bytes_received m + ucast (skb_len skb),
                       packets_received := packets_received m + 1,
                       last_seen_ns := ktime_ns env\<rparr>) (flow_map s)\<rparr>, 1)))"
  by (simp add: track_ingress_def ingress_key_def l4_tuple_def Let_def split: option.splits prod.splits)

lemma lookup_update_same [simp]:
  "bpf_map_lookup_elem (AList.update k v m) k = Some v"
  by (simp add: bpf_map_lookup_elem_def update_conv')

lemma lookup_update_other [simp]:
  "k' \<noteq> k \<Longrightarrow> bpf_map_lookup_elem (AList.update k v m) k' = bpf_map_lookup_elem m k'"
  by (simp add: bpf_map_lookup_elem_def update_conv')

lemma lookup_insert:
  "bpf_map_lookup_elem (fst (bpf_map_update_elem n m k v)) k' =
     (if k' = k \<and> (bpf_map_lookup_elem m k \<noteq> None \<or> length m < n) then Some v
      else bpf_map_lookup_elem m k')"
  by (simp add: bpf_map_update_elem_def bpf_map_lookup_elem_def update_conv')

lemma track_egress_new:
  assumes "egress_key e skb = Some k"
    and "bpf_map_lookup_elem (flow_map s) k = None"
    and "length (flow_map s) < MAX_ENTRIES"
  shows "bpf_map_lookup_elem (flow_map (fst (track_egress e env skb s))) k = Some (new_metrics env skb)"
  using assms by (simp add: track_egress_eq lookup_insert)

lemma track_egress_full:
  assumes "egress_key e skb = Some k"
    and "bpf_map_lookup_elem (flow_map s) k = None"
    and "\<not> length (flow_map s) < MAX_ENTRIES"
  shows "fst (track_egress e env skb s) = s"
  using assms by (simp add: track_egress_eq bpf_map_update_elem_def bpf_map_lookup_elem_def)

lemma track_egress_existing:
  assumes "egress_key e skb = Some k"
    and "bpf_map_lookup_elem (flow_map s) k = Some m"
  shows "bpf_map_lookup_elem (flow_map (fst (track_egress e env skb s))) k =
           Some (m\<lparr>bytes_sent := bytes_sent m + ucast (skb_len skb),
                   packets_sent := packets_sent m + 1,
                   last_seen_ns := ktime_ns env\<rparr>)"
  using assms by (simp add: track_egress_eq)

lemma track_egress_other:
  assumes "egress_key e skb \<noteq> Some k"
  shows "bpf_map_lookup_elem (flow_map (fst (track_egress e env skb s))) k =
         bpf_map_lookup_elem (flow_map s) k"
proof (cases "egress_key e skb")
  case None
  then show ?thesis by (simp add: track_egress_eq)
next
  case (Some k')
  then have ne: "k \<noteq> k'" using assms by auto
  show ?thesis
  proof (cases "bpf_map_lookup_elem (flow_map s) k'")
    case None
    then show ?thesis using Some ne by (simp add: track_egress_eq lookup_insert)
  next
    case (Some m)
    then show ?thesis using \<open>egress_key e skb = Some k'\<close> ne by (simp add: track_egress_eq)
  qed
qed

lemma track_ingress_other:
  assumes "ingress_key e skb \<noteq> Some k"
  shows "bpf_map_lookup_elem (flow_map (fst (track_ingress e env skb s))) k =
         bpf_map_lookup_elem (flow_map s) k"
proof (cases "ingress_key e skb")
  case None
  then show ?thesis by (simp add: track_ingress_eq)
next
  case (Some k')
  then have ne: "k \<noteq> k'" using assms by auto
  show ?thesis
  proof (cases "bpf_map_lookup_elem (flow_map s) k'")
    case None
    then show ?thesis using Some ne by (simp add: track_ingress_eq)
  next
    case (Some m)
    then show ?thesis using \<open>ingress_key e skb = Some k'\<close> ne by (simp add: track_ingress_eq)
  qed
qed

lemma track_ingress_existing:
  assumes "ingress_key e skb = Some k"
    and "bpf_map_lookup_elem (flow_map s) k = Some m"
  shows "bpf_map_lookup_elem (flow_map (fst (track_ingress e env skb s))) k =
           Some (m\<lparr>bytes_received := bytes_received m + ucast (skb_len skb),
                   packets_received := packets_received m + 1,
                   last_seen_ns := ktime_ns env\<rparr>)"
  using assms by (simp add: track_ingress_eq)

subsection \<open>The example packets\<close>

lemma egress_key_pkt_out: "egress_key LittleEndian pkt_out = Some key_out"
  by code_simp

lemma ingress_key_pkt_in: "ingress_key LittleEndian pkt_in = Some key_out"
  by code_simp

lemma l4_tuple_pkt_out:
  "l4_tuple LittleEndian (skb_data pkt_out) = Some (0x0500000A, 0x22D8B85D, 40000, 443, 6)"
  by code_simp

lemma l4_tuple_pkt_in:
  "l4_tuple LittleEndian (skb_data pkt_in) = Some (0x22D8B85D, 0x0500000A, 443, 40000, 6)"
  by code_simp

lemma egress_key_pkt_internal: "egress_key LittleEndian pkt_internal = Some key_internal"
  by code_simp

lemma dst_internal_pkt_internal:
  "dst_internal LittleEndian monitor_empty (ip_daddr LittleEndian (skb_data pkt_internal))"
  by code_simp


lemma key_internal_neq: "key_internal \<noteq> key_out"
  by (simp add: key_internal_def key_out_def create_flow_key_def)

lemma full_table_length: "length full_table = 65536"
  by (simp add: full_table_def)

lemma full_table_lookup: "bpf_map_lookup_elem full_table key_out = None"
  by (simp add: bpf_map_lookup_elem_def full_table_def map_of_eq_None_iff image_iff
      key_out_def create_flow_key_def)

section \<open>Flow key canonicalization\<close>

text \<open>
  Claim C3. Flow key canonicalization is direction-symmetric: an outbound packet carries
  source \<open>(A, pA)\<close>, destination \<open>(B, pB)\<close> and protocol \<open>pr\<close> (TCP or UDP, since it
  parses), and an inbound packet carries source \<open>(B, pB)\<close>, destination \<open>(A, pA)\<close> and
  the same protocol. Then the key that \<^verbatim>\<open>track_ingress\<close> builds for the inbound packet
  equals the key \<open>create_flow_key A B pA pB pr\<close> that \<^verbatim>\<open>track_egress\<close> builds for the
  outbound one, and both hooks work on the Flow Table entry of that one key:
  \<^verbatim>\<open>track_egress\<close> on the outbound packet adds to the sent counters of its entry,
  \<^verbatim>\<open>track_ingress\<close> on the inbound packet adds to the received counters of the same
  entry, neither hook changes the entry of any other key, and a reply behind the first
  outbound packet of a flow lands on the entry that this packet created.
\<close>

theorem flow_key_symmetric:
  assumes "l4_tuple e (skb_data p) = Some (A, B, pA, pB, pr)"
    and "l4_tuple e (skb_data q) = Some (B, A, pB, pA, pr)"
  shows "egress_key e p = Some (create_flow_key A B pA pB pr) \<and>
         ingress_key e q = egress_key e p \<and>
         (\<forall>s m. bpf_map_lookup_elem (flow_map s) (create_flow_key A B pA pB pr) = Some m \<longrightarrow>
            bpf_map_lookup_elem (flow_map (fst (track_egress e env p s))) (create_flow_key A B pA pB pr) =
              Some (m\<lparr>bytes_sent := bytes_sent m + ucast (skb_len p),
                      packets_sent := packets_sent m + 1,
                      last_seen_ns := ktime_ns env\<rparr>) \<and>
            bpf_map_lookup_elem (flow_map (fst (track_ingress e env q s))) (create_flow_key A B pA pB pr) =
              Some (m\<lparr>bytes_received := bytes_received m + ucast (skb_len q),
                      packets_received := packets_received m + 1,
                      last_seen_ns := ktime_ns env\<rparr>)) \<and>
         (\<forall>s k. k \<noteq> create_flow_key A B pA pB pr \<longrightarrow>
            bpf_map_lookup_elem (flow_map (fst (track_egress e env p s))) k =
              bpf_map_lookup_elem (flow_map s) k \<and>
            bpf_map_lookup_elem (flow_map (fst (track_ingress e env q s))) k =
              bpf_map_lookup_elem (flow_map s) k) \<and>
         (\<forall>s. bpf_map_lookup_elem (flow_map s) (create_flow_key A B pA pB pr) = None \<and>
              length (flow_map s) < MAX_ENTRIES \<longrightarrow>
            bpf_map_lookup_elem
              (flow_map (fst (track_ingress e env q (fst (track_egress e env p s)))))
              (create_flow_key A B pA pB pr) =
              Some ((new_metrics env p)\<lparr>bytes_received := ucast (skb_len q),
                      packets_received := 1,
                      last_seen_ns := ktime_ns env\<rparr>))"
proof -
  let ?K = "create_flow_key A B pA pB pr"
  have ek: "egress_key e p = Some ?K" using assms(1) by (simp add: egress_key_def)
  have ik: "ingress_key e q = Some ?K" using assms(2) by (simp add: ingress_key_def)
  have upd: "\<forall>s m. bpf_map_lookup_elem (flow_map s) ?K = Some m \<longrightarrow>
            bpf_map_lookup_elem (flow_map (fst (track_egress e env p s))) ?K =
              Some (m\<lparr>bytes_sent := bytes_sent m + ucast (skb_len p),
                      packets_sent := packets_sent m + 1,
                      last_seen_ns := ktime_ns env\<rparr>) \<and>
            bpf_map_lookup_elem (flow_map (fst (track_ingress e env q s))) ?K =
              Some (m\<lparr>bytes_received := bytes_received m + ucast (skb_len q),
                      packets_received := packets_received m + 1,
                      last_seen_ns := ktime_ns env\<rparr>)"
    using track_egress_existing [OF ek] track_ingress_existing [OF ik] by blast
  have oth: "\<forall>s k. k \<noteq> ?K \<longrightarrow>
            bpf_map_lookup_elem (flow_map (fst (track_egress e env p s))) k =
              bpf_map_lookup_elem (flow_map s) k \<and>
            bpf_map_lookup_elem (flow_map (fst (track_ingress e env q s))) k =
              bpf_map_lookup_elem (flow_map s) k"
  proof (intro allI impI)
    fix s :: tracker_maps and k
    assume "k \<noteq> ?K"
    then have "egress_key e p \<noteq> Some k" "ingress_key e q \<noteq> Some k" using ek ik by auto
    then show "bpf_map_lookup_elem (flow_map (fst (track_egress e env p s))) k =
              bpf_map_lookup_elem (flow_map s) k \<and>
            bpf_map_lookup_elem (flow_map (fst (track_ingress e env q s))) k =
              bpf_map_lookup_elem (flow_map s) k"
      using track_egress_other track_ingress_other by blast
  qed
  have new: "\<forall>s. bpf_map_lookup_elem (flow_map s) ?K = None \<and> length (flow_map s) < MAX_ENTRIES \<longrightarrow>
            bpf_map_lookup_elem
              (flow_map (fst (track_ingress e env q (fst (track_egress e env p s))))) ?K =
              Some ((new_metrics env p)\<lparr>bytes_received := ucast (skb_len q),
                      packets_received := 1,
                      last_seen_ns := ktime_ns env\<rparr>)"
  proof (intro allI impI)
    fix s :: tracker_maps
    assume a: "bpf_map_lookup_elem (flow_map s) ?K = None \<and> length (flow_map s) < MAX_ENTRIES"
    have "bpf_map_lookup_elem (flow_map (fst (track_egress e env p s))) ?K = Some (new_metrics env p)"
      using track_egress_new [OF ek, of s env] a by simp
    from track_ingress_existing [OF ik this, of env]
    show "bpf_map_lookup_elem
              (flow_map (fst (track_ingress e env q (fst (track_egress e env p s))))) ?K =
              Some ((new_metrics env p)\<lparr>bytes_received := ucast (skb_len q),
                      packets_received := 1,
                      last_seen_ns := ktime_ns env\<rparr>)"
      by (simp add: new_metrics_def)
  qed
  show ?thesis using ek ik upd oth new by simp
qed

text \<open>
  An instance of C3: the packet 10.0.0.5:40000 to 93.184.216.34:443 and its reply, at an
  existing entry, next to the entry of another flow, and behind the creation of the
  entry.
\<close>

theorem flow_key_symmetric_witness:
  "egress_key LittleEndian pkt_out = Some key_out \<and>
   ingress_key LittleEndian pkt_in = Some key_out \<and>
   bpf_map_lookup_elem (flow_map (fst (track_ingress LittleEndian env0 pkt_in tracker_one))) key_out =
     Some (metrics0\<lparr>bytes_sent := 40, packets_sent := 2, start_time_ns := 5, pid := 77,
                     bytes_received := 1500, packets_received := 1, last_seen_ns := 1000\<rparr>) \<and>
   bpf_map_lookup_elem (flow_map (fst (track_ingress LittleEndian env0 pkt_in tracker_two))) key_internal =
     Some metrics0 \<and>
   bpf_map_lookup_elem
     (flow_map (fst (track_ingress LittleEndian env0 pkt_in
        (fst (track_egress LittleEndian env0 pkt_out tracker_empty))))) key_out =
     Some ((new_metrics env0 pkt_out)\<lparr>bytes_received := 1500, packets_received := 1,
              last_seen_ns := 1000\<rparr>)"
proof -
  note t = flow_key_symmetric [OF l4_tuple_pkt_out l4_tuple_pkt_in, of env0, folded key_out_def]
  have m: "bpf_map_lookup_elem (flow_map tracker_one) key_out =
      Some (metrics0\<lparr>bytes_sent := 40, packets_sent := 2, start_time_ns := 5, pid := 77\<rparr>)"
    by (simp add: tracker_one_def bpf_map_lookup_elem_def)
  have n: "bpf_map_lookup_elem (flow_map tracker_empty) key_out = None \<and>
           length (flow_map tracker_empty) < MAX_ENTRIES"
    by (simp add: tracker_empty_def bpf_map_lookup_elem_def MAX_ENTRIES_def)
  have o: "bpf_map_lookup_elem (flow_map tracker_two) key_internal = Some metrics0"
    using key_internal_neq by (simp add: tracker_two_def bpf_map_lookup_elem_def)
  have v: "skb_len pkt_in = 1500" "ktime_ns env0 = 1000"
    by (simp_all add: pkt_in_def env0_def)
  have a: "egress_key LittleEndian pkt_out = Some key_out \<and> ingress_key LittleEndian pkt_in = Some key_out"
    using t by simp
  have b: "bpf_map_lookup_elem (flow_map (fst (track_ingress LittleEndian env0 pkt_in tracker_one))) key_out =
     Some (metrics0\<lparr>bytes_sent := 40, packets_sent := 2, start_time_ns := 5, pid := 77,
                     bytes_received := 1500, packets_received := 1, last_seen_ns := 1000\<rparr>)"
    using t m v by (simp add: metrics0_def)
  have c: "bpf_map_lookup_elem (flow_map (fst (track_ingress LittleEndian env0 pkt_in tracker_two))) key_internal =
     Some metrics0"
    using t o key_internal_neq by simp
  have d: "bpf_map_lookup_elem
     (flow_map (fst (track_ingress LittleEndian env0 pkt_in
        (fst (track_egress LittleEndian env0 pkt_out tracker_empty))))) key_out =
     Some ((new_metrics env0 pkt_out)\<lparr>bytes_received := 1500, packets_received := 1,
              last_seen_ns := 1000\<rparr>)"
    using t n v by simp
  show ?thesis using a b c d by simp
qed

section \<open>Inbound processing\<close>

lemma track_ingress_keeps_absent:
  assumes "bpf_map_lookup_elem (flow_map s) k = None"
  shows "bpf_map_lookup_elem (flow_map (fst (track_ingress e env skb s))) k = None"
proof (cases "ingress_key e skb")
  case None
  then show ?thesis using assms by (simp add: track_ingress_eq)
next
  case (Some k')
  show ?thesis
  proof (cases "bpf_map_lookup_elem (flow_map s) k'")
    case None
    then show ?thesis using assms Some by (simp add: track_ingress_eq)
  next
    case (Some m)
    then have "k \<noteq> k'" using assms by auto
    then show ?thesis using assms Some \<open>ingress_key e skb = Some k'\<close>
      by (simp add: track_ingress_eq)
  qed
qed

lemma run_inbound_keeps_absent:
  "bpf_map_lookup_elem (flow_map s) k = None \<Longrightarrow>
   bpf_map_lookup_elem (flow_map (run e (inbound_ops pkts) s)) k = None"
proof (induction pkts arbitrary: s)
  case Nil
  then show ?case by (simp add: run_def inbound_ops_def)
next
  case (Cons p pkts)
  obtain env skb where p: "p = (env, skb)" by (cases p)
  have "bpf_map_lookup_elem (flow_map (fst (track_ingress e env skb s))) k = None"
    using Cons.prems by (rule track_ingress_keeps_absent)
  from Cons.IH [OF this] show ?case
    by (simp add: run_def inbound_ops_def p)
qed

text \<open>
  Claim C4. Inbound processing never creates a Flow Table entry: from a table with no
  entry for a key, any run of inbound packets leaves the table without an entry for
  that key; an inbound packet for the absent key changes nothing and returns the
  allow verdict 1.
\<close>

theorem inbound_never_creates:
  assumes "bpf_map_lookup_elem (flow_map s) k = None"
  shows "bpf_map_lookup_elem (flow_map (run e (inbound_ops pkts) s)) k = None \<and>
         (ingress_key e skb = Some k \<longrightarrow> track_ingress e env skb s = (s, 1))"
  using assms run_inbound_keeps_absent [OF assms] by (simp add: track_ingress_eq)

text \<open>An instance of C4: two replies to a flow that was never seen outbound.\<close>

theorem inbound_never_creates_witness:
  "bpf_map_lookup_elem (flow_map tracker_empty) key_out = None \<and>
   ingress_key LittleEndian pkt_in = Some key_out \<and>
   bpf_map_lookup_elem
     (flow_map (run LittleEndian (inbound_ops [(env0, pkt_in), (env0, pkt_in)]) tracker_empty)) key_out = None \<and>
   track_ingress LittleEndian env0 pkt_in tracker_empty = (tracker_empty, 1)"
proof -
  have a: "bpf_map_lookup_elem (flow_map tracker_empty) key_out = None"
    by (simp add: tracker_empty_def bpf_map_lookup_elem_def)
  show ?thesis
    using a ingress_key_pkt_in
      inbound_never_creates [OF a, of LittleEndian "[(env0, pkt_in), (env0, pkt_in)]" pkt_in env0]
    by simp
qed

section \<open>The outbound upsert\<close>

text \<open>
  Claim C5, as amended. For an outbound packet with key \<open>k\<close>: if the table has no entry
  for \<open>k\<close> and holds fewer than \<^verbatim>\<open>MAX_ENTRIES\<close> entries, the hook creates an entry with
  \<open>bytes_sent\<close> the packet length, \<open>packets_sent = 1\<close>, start time and last-seen time the
  current time, and the current process id, user id and process name; if the table has
  no entry for \<open>k\<close> and is full, the table stays as it was; if an entry exists, the hook
  adds the packet length to \<open>bytes_sent\<close>, adds 1 to \<open>packets_sent\<close> and sets the
  last-seen time, and leaves the start time, the received counters and the process
  identity as they were.
\<close>

theorem outbound_upsert_contract:
  assumes "egress_key e skb = Some k"
  shows "(bpf_map_lookup_elem (flow_map s) k = None \<and> length (flow_map s) < MAX_ENTRIES \<longrightarrow>
            (\<exists>m'. bpf_map_lookup_elem (flow_map (fst (track_egress e env skb s))) k = Some m' \<and>
                  bytes_sent m' = ucast (skb_len skb) \<and> packets_sent m' = 1 \<and>
                  bytes_received m' = 0 \<and> packets_received m' = 0 \<and>
                  start_time_ns m' = ktime_ns env \<and> last_seen_ns m' = ktime_ns env \<and>
                  pid m' = ucast (drop_bit 32 (pid_tgid env)) \<and>
                  uid m' = ucast (uid_gid env AND 0xFFFFFFFF) \<and>
                  comm m' = task_comm env)) \<and>
         (bpf_map_lookup_elem (flow_map s) k = None \<and> \<not> length (flow_map s) < MAX_ENTRIES \<longrightarrow>
            fst (track_egress e env skb s) = s) \<and>
         (\<forall>m. bpf_map_lookup_elem (flow_map s) k = Some m \<longrightarrow>
            (\<exists>m'. bpf_map_lookup_elem (flow_map (fst (track_egress e env skb s))) k = Some m' \<and>
                  bytes_sent m' = bytes_sent m + ucast (skb_len skb) \<and>
                  packets_sent m' = packets_sent m + 1 \<and>
                  last_seen_ns m' = ktime_ns env \<and>
                  start_time_ns m' = start_time_ns m \<and>
                  bytes_received m' = bytes_received m \<and>
                  packets_received m' = packets_received m \<and>
                  pid m' = pid m \<and> uid m' = uid m \<and> comm m' = comm m))"
proof (intro conjI impI allI)
  assume "bpf_map_lookup_elem (flow_map s) k = None \<and> length (flow_map s) < MAX_ENTRIES"
  then have "bpf_map_lookup_elem (flow_map (fst (track_egress e env skb s))) k = Some (new_metrics env skb)"
    using assms track_egress_new by blast
  then show "\<exists>m'. bpf_map_lookup_elem (flow_map (fst (track_egress e env skb s))) k = Some m' \<and>
                  bytes_sent m' = ucast (skb_len skb) \<and> packets_sent m' = 1 \<and>
                  bytes_received m' = 0 \<and> packets_received m' = 0 \<and>
                  start_time_ns m' = ktime_ns env \<and> last_seen_ns m' = ktime_ns env \<and>
                  pid m' = ucast (drop_bit 32 (pid_tgid env)) \<and>
                  uid m' = ucast (uid_gid env AND 0xFFFFFFFF) \<and>
                  comm m' = task_comm env"
    by (simp add: new_metrics_def)
next
  assume "bpf_map_lookup_elem (flow_map s) k = None \<and> \<not> length (flow_map s) < MAX_ENTRIES"
  then show "fst (track_egress e env skb s) = s"
    using assms track_egress_full by blast
next
  fix m
  assume "bpf_map_lookup_elem (flow_map s) k = Some m"
  from track_egress_existing [OF assms this, of env]
  show "\<exists>m'. bpf_map_lookup_elem (flow_map (fst (track_egress e env skb s))) k = Some m' \<and>
                  bytes_sent m' = bytes_sent m + ucast (skb_len skb) \<and>
                  packets_sent m' = packets_sent m + 1 \<and>
                  last_seen_ns m' = ktime_ns env \<and>
                  start_time_ns m' = start_time_ns m \<and>
                  bytes_received m' = bytes_received m \<and>
                  packets_received m' = packets_received m \<and>
                  pid m' = pid m \<and> uid m' = uid m \<and> comm m' = comm m"
    by simp
qed

text \<open>
  Claim C5 as stated fails: the table holds \<^verbatim>\<open>MAX_ENTRIES\<close> entries and none for the
  key of the packet; after the outbound hook there is still no entry for that key.
\<close>

theorem outbound_upsert_full_table_counterexample:
  "egress_key LittleEndian pkt_out = Some key_out \<and>
   bpf_map_lookup_elem (flow_map tracker_full) key_out = None \<and>
   bpf_map_lookup_elem (flow_map (fst (track_egress LittleEndian env0 pkt_out tracker_full))) key_out = None"
proof -
  have a: "bpf_map_lookup_elem (flow_map tracker_full) key_out = None"
    by (simp add: tracker_full_def full_table_lookup)
  have b: "\<not> length (flow_map tracker_full) < MAX_ENTRIES"
    by (simp add: tracker_full_def full_table_length MAX_ENTRIES_def)
  have "fst (track_egress LittleEndian env0 pkt_out tracker_full) = tracker_full"
    using egress_key_pkt_out a b by (rule track_egress_full)
  then show ?thesis using a egress_key_pkt_out by simp
qed

text \<open>
  Instances of C5: the first packet of a flow into an empty table, a further packet of
  a flow that has an entry, and the first packet of a flow into a full table.
\<close>

theorem outbound_upsert_contract_witness:
  "(\<exists>m'. bpf_map_lookup_elem (flow_map (fst (track_egress LittleEndian env0 pkt_out tracker_empty))) key_out = Some m' \<and>
         bytes_sent m' = 100 \<and> packets_sent m' = 1 \<and> start_time_ns m' = 1000 \<and>
         last_seen_ns m' = 1000 \<and> pid m' = 0x162E \<and> uid m' = 0x3E9) \<and>
   (\<exists>m'. bpf_map_lookup_elem (flow_map (fst (track_egress LittleEndian env0 pkt_out tracker_one))) key_out = Some m' \<and>
         bytes_sent m' = 140 \<and> packets_sent m' = 3 \<and> start_time_ns m' = 5 \<and>
         last_seen_ns m' = 1000 \<and> pid m' = 77) \<and>
   fst (track_egress LittleEndian env0 pkt_out tracker_full) = tracker_full"
proof -
  have a: "bpf_map_lookup_elem (flow_map tracker_empty) key_out = None \<and>
           length (flow_map tracker_empty) < MAX_ENTRIES"
    by (simp add: tracker_empty_def bpf_map_lookup_elem_def MAX_ENTRIES_def)
  have b: "bpf_map_lookup_elem (flow_map tracker_one) key_out =
             Some (metrics0\<lparr>bytes_sent := 40, packets_sent := 2, start_time_ns := 5, pid := 77\<rparr>)"
    by (simp add: tracker_one_def bpf_map_lookup_elem_def)
  have c: "bpf_map_lookup_elem (flow_map tracker_full) key_out = None \<and>
           \<not> length (flow_map tracker_full) < MAX_ENTRIES"
    by (simp add: tracker_full_def full_table_lookup full_table_length MAX_ENTRIES_def)
  have v: "skb_len pkt_out = 100" "ktime_ns env0 = 1000"
    "(ucast (drop_bit 32 (pid_tgid env0)) :: u32) = 0x162E"
    "(ucast (uid_gid env0 AND 0xFFFFFFFF) :: u32) = 0x3E9"
    by (simp_all add: pkt_out_def env0_def)
  show ?thesis
    using a b c v
      outbound_upsert_contract [OF egress_key_pkt_out, of tracker_empty env0]
      outbound_upsert_contract [OF egress_key_pkt_out, of tracker_one env0]
      outbound_upsert_contract [OF egress_key_pkt_out, of tracker_full env0]
    by (auto simp: metrics0_def)
qed

section \<open>Verdicts\<close>

text \<open>
  Claim C7. For every packet and every state of the maps, each packet-path hook returns
  the allow verdict: \<^verbatim>\<open>monitor_egress\<close> returns \<^verbatim>\<open>TC_ACT_OK\<close> and \<^verbatim>\<open>track_egress\<close> and
  \<^verbatim>\<open>track_ingress\<close> return 1, on every exit path: truncated, non-IP and
  non-TCP/UDP packets, a full table and a full event queue included.
\<close>

theorem hooks_always_allow:
  "snd (monitor_egress e now skb ms) = TC_ACT_OK \<and>
   snd (track_egress e env skb ts) = 1 \<and>
   snd (track_ingress e env skb ts) = 1"
proof (intro conjI)
  show "snd (monitor_egress e now skb ms) = TC_ACT_OK"
    by (simp add: monitor_egress_def Let_def split: option.splits prod.splits)
  show "snd (track_egress e env skb ts) = 1"
    by (simp add: track_egress_eq split: option.splits)
  show "snd (track_ingress e env skb ts) = 1"
    by (simp add: track_ingress_eq split: option.splits)
qed

text \<open>
  Instances of C7: an external packet at the monitor, the first packet of a flow at a
  full table, a reply without a flow entry, and a packet of three bytes.
\<close>

theorem hooks_always_allow_witness:
  "snd (monitor_egress LittleEndian 1000 pkt_out monitor_empty) = TC_ACT_OK \<and>
   snd (track_egress LittleEndian env0 pkt_out tracker_full) = 1 \<and>
   snd (track_ingress LittleEndian env0 pkt_in tracker_empty) = 1 \<and>
   snd (track_egress LittleEndian env0 \<lparr>skb_len = 3, skb_data = [1, 2, 3]\<rparr> tracker_empty) = 1"
  using hooks_always_allow [of LittleEndian 1000 pkt_out monitor_empty env0 tracker_full]
    hooks_always_allow [of LittleEndian 1000 pkt_in monitor_empty env0 tracker_empty]
    hooks_always_allow [of LittleEndian 1000 "\<lparr>skb_len = 3, skb_data = [1, 2, 3]\<rparr>"
        monitor_empty env0 tracker_empty]
  by blast

section \<open>Classification gates the egress side effects\<close>

lemma monitor_egress_internal:
  "dst_internal e ms (ip_daddr e (skb_data skb)) \<Longrightarrow> monitor_egress e now skb ms = (ms, TC_ACT_OK)"
  by (simp add: monitor_egress_def Let_def)

text \<open>
  Claim C6. For an outbound packet whose destination is classified Internal, the egress
  monitor changes none of its maps, so it emits no event and leaves every aggregator
  total as it was, and returns \<^verbatim>\<open>TC_ACT_OK\<close>; the flow tracker still creates the
  entry of the flow (in a table with room) or updates it, as for any outbound packet.
\<close>

theorem internal_destination_tracked_not_reported:
  assumes "egress_key e skb = Some k"
    and "dst_internal e ms (ip_daddr e (skb_data skb))"
  shows "monitor_egress e now skb ms = (ms, TC_ACT_OK) \<and>
         egress_events (fst (monitor_egress e now skb ms)) = egress_events ms \<and>
         egress_bytes (fst (monitor_egress e now skb ms)) = egress_bytes ms \<and>
         (bpf_map_lookup_elem (flow_map ts) k = None \<and> length (flow_map ts) < MAX_ENTRIES \<longrightarrow>
            bpf_map_lookup_elem (flow_map (fst (track_egress e env skb ts))) k = Some (new_metrics env skb)) \<and>
         (\<forall>m. bpf_map_lookup_elem (flow_map ts) k = Some m \<longrightarrow>
            bpf_map_lookup_elem (flow_map (fst (track_egress e env skb ts))) k =
              Some (m\<lparr>bytes_sent := bytes_sent m + ucast (skb_len skb),
                      packets_sent := packets_sent m + 1,
                      last_seen_ns := ktime_ns env\<rparr>))"
  using assms by (simp add: monitor_egress_internal track_egress_new track_egress_existing)

text \<open>An instance of C6: the packet to 10.1.1.1, at a new and at an existing flow.\<close>

theorem internal_destination_tracked_not_reported_witness:
  "monitor_egress LittleEndian 1000 pkt_internal monitor_empty = (monitor_empty, TC_ACT_OK) \<and>
   bpf_map_lookup_elem (flow_map (fst (track_egress LittleEndian env0 pkt_internal tracker_empty))) key_internal
     = Some (new_metrics env0 pkt_internal) \<and>
   bpf_map_lookup_elem
     (flow_map (fst (track_egress LittleEndian env0 pkt_internal
        (tracker_empty\<lparr>flow_map := [(key_internal, metrics0)]\<rparr>)))) key_internal
     = Some (metrics0\<lparr>bytes_sent := 100, packets_sent := 1, last_seen_ns := 1000\<rparr>)"
proof -
  have a: "bpf_map_lookup_elem (flow_map tracker_empty) key_internal = None \<and>
           length (flow_map tracker_empty) < MAX_ENTRIES"
    by (simp add: tracker_empty_def bpf_map_lookup_elem_def MAX_ENTRIES_def)
  have b: "bpf_map_lookup_elem (flow_map (tracker_empty\<lparr>flow_map := [(key_internal, metrics0)]\<rparr>)) key_internal
             = Some metrics0"
    by (simp add: bpf_map_lookup_elem_def)
  have v: "skb_len pkt_internal = 100" "ktime_ns env0 = 1000"
    by (simp_all add: pkt_internal_def env0_def)
  show ?thesis
    using a b v
      internal_destination_tracked_not_reported
        [OF egress_key_pkt_internal dst_internal_pkt_internal, of 1000 tracker_empty env0]
      internal_destination_tracked_not_reported
        [OF egress_key_pkt_internal dst_internal_pkt_internal, of 1000
           "tracker_empty\<lparr>flow_map := [(key_internal, metrics0)]\<rparr>" env0]
    by (simp add: metrics0_def)
qed

section \<open>The flush walker\<close>

lemma flush_flows_rc: "snd (flush_flows ctx s) = 0"
  by (simp add: flush_flows_def split: prod.splits option.splits)

lemma flush_flows_flow_map: "flow_map (fst (flush_flows ctx s)) = flow_map s"
  by (simp add: flush_flows_def split: prod.splits option.splits)

lemma flush_flows_entry:
  "flush_flows (Some k, Some m) s =
     (if rb_space (events s) = 0 then s
      else s\<lparr>events := \<lparr>rb_records = rb_records (events s) @ [snapshot (k, m)],
                         rb_space = rb_space (events s) - 1\<rparr>\<rparr>, 0)"
  by (simp add: flush_flows_def bpf_ringbuf_reserve_def bpf_ringbuf_submit_def snapshot_def)

lemma flush_flows_end: "flush_flows (None, None) s = (s, 0)"
  by (simp add: flush_flows_def)

lemma flush_walk_props:
  "flow_map (fst (flush_walk es s)) = flow_map s \<and>
   snd (flush_walk es s) = length es \<and>
   rb_records (events (fst (flush_walk es s))) =
     rb_records (events s) @ map snapshot (take (rb_space (events s)) es) \<and>
   rb_space (events (fst (flush_walk es s))) = rb_space (events s) - length es"
proof (induction es arbitrary: s)
  case Nil
  then show ?case by (simp add: flush_flows_end)
next
  case (Cons a es)
  obtain k m where a: "a = (k, m)" by (cases a)
  show ?case
  proof (cases "rb_space (events s) = 0")
    case True
    then show ?thesis using Cons.IH [of s]
      by (simp add: a flush_flows_entry case_prod_beta)
  next
    case False
    then obtain n where n: "rb_space (events s) = Suc n" by (cases "rb_space (events s)") auto
    let ?s' = "s\<lparr>events := \<lparr>rb_records = rb_records (events s) @ [snapshot (k, m)],
                         rb_space = rb_space (events s) - 1\<rparr>\<rparr>"
    show ?thesis using Cons.IH [of ?s'] n
      by (simp add: a flush_flows_entry case_prod_beta)
  qed
qed

text \<open>
  Claim C8. The flush walker is read-only with respect to the Flow Table and resilient
  to event drops: the walk leaves the table as it was, visits every entry, and submits
  the snapshot of an entry while the queue has room; every call of \<^verbatim>\<open>flush_flows\<close>
  returns 0, so that a dropped event does not end the walk, and leaves the table as it
  was.
\<close>

theorem flush_read_only:
  "flow_map (fst (flush s)) = flow_map s \<and>
   snd (flush s) = length (flow_map s) \<and>
   rb_records (events (fst (flush s))) =
     rb_records (events s) @ map snapshot (take (rb_space (events s)) (flow_map s)) \<and>
   snd (flush_flows ctx s) = 0 \<and>
   flow_map (fst (flush_flows ctx s)) = flow_map s"
  using flush_walk_props [of "flow_map s" s]
  by (simp add: flush_def flush_flows_rc flush_flows_flow_map)

text \<open>
  An instance of C8: a table of two entries and a queue with room for one event; the
  walk visits both entries and submits the snapshot of the first.
\<close>

theorem flush_read_only_witness:
  "flow_map (fst (flush tracker_two)) = flow_map tracker_two \<and>
   snd (flush tracker_two) = 2 \<and>
   rb_records (events (fst (flush tracker_two))) = [snapshot (key_out, metrics0)]"
  using flush_read_only [of tracker_two] by (simp add: tracker_two_def)

section \<open>The events of the egress monitor\<close>

lemma pkt_out_fields:
  "length (skb_data pkt_out) = 54"
  "eth_h_proto LittleEndian (skb_data pkt_out) = bpf_htons LittleEndian ETH_P_IP"
  "ip_protocol (skb_data pkt_out) = 6"
  "ip_saddr LittleEndian (skb_data pkt_out) = 0x0500000A"
  "ip_daddr LittleEndian (skb_data pkt_out) = 0x22D8B85D"
  "parse_ports LittleEndian (skb_data pkt_out) = Some (40000, 443)"
  "skb_len pkt_out = 100"
  by code_simp+

lemma pkt_out_external: "\<not> dst_internal LittleEndian monitor_empty 0x22D8B85D"
  by code_simp

lemma monitor_pkt_out:
  "monitor_egress LittleEndian 1000 pkt_out monitor_empty =
     (monitor_empty\<lparr>egress_bytes := [(0x22D8B85D, 100)],
        egress_events := \<lparr>rb_records =
          [\<lparr>ev_src_ip = 0x0500000A, ev_dst_ip = 0x22D8B85D, ev_src_port = 40000, ev_dst_port = 443,
            ev_protocol = 6, ev_bytes = 100, ev_timestamp_ns = 1000, ev_pid = 0\<rparr>], rb_space = 3\<rparr>\<rparr>,
      TC_ACT_OK)"
proof -
  have a: "egress_bytes monitor_empty = []" "egress_events monitor_empty = \<lparr>rb_records = [], rb_space = 4\<rparr>"
    by (simp_all add: monitor_empty_def)
  show ?thesis
    by (simp add: monitor_egress_def Let_def pkt_out_fields pkt_out_external a
        ETH_HLEN_def IPHDR_LEN_def IPPROTO_TCP_def IPPROTO_UDP_def
        bpf_map_lookup_elem_def bpf_map_update_elem_def MONITOR_MAX_ENTRIES_def
        bpf_ringbuf_reserve_def bpf_ringbuf_submit_def)
qed

lemma monitor_egress_events:
  "\<exists>new. rb_records (egress_events (fst (monitor_egress e now skb s))) =
           rb_records (egress_events s) @ new \<and> length new \<le> 1 \<and> (\<forall>ev\<in>set new. ev_pid ev = 0)"
  by (auto simp: monitor_egress_def Let_def bpf_ringbuf_submit_def split: option.splits prod.splits)

text \<open>
  Claim C10. Every event that \<^verbatim>\<open>monitor_egress\<close> emits carries the process id 0: a
  call appends at most one event to the queue, and the appended event has \<open>ev_pid = 0\<close>,
  whatever process sent the packet.
\<close>

theorem egress_event_pid_zero:
  "\<exists>new. rb_records (egress_events (fst (monitor_egress e now skb s))) =
           rb_records (egress_events s) @ new \<and> length new \<le> 1 \<and> (\<forall>ev\<in>set new. ev_pid ev = 0)"
  by (rule monitor_egress_events)

text \<open>An instance of C10: the event for the packet to 93.184.216.34.\<close>

theorem egress_event_pid_zero_witness:
  "\<exists>ev. rb_records (egress_events (fst (monitor_egress LittleEndian 1000 pkt_out monitor_empty))) = [ev] \<and>
        ev_dst_ip ev = 0x22D8B85D \<and> ev_bytes ev = 100 \<and> ev_pid ev = 0"
proof -
  obtain new where new:
    "rb_records (egress_events (fst (monitor_egress LittleEndian 1000 pkt_out monitor_empty))) =
       rb_records (egress_events monitor_empty) @ new"
    "\<forall>ev\<in>set new. ev_pid ev = 0"
    using egress_event_pid_zero [of LittleEndian 1000 pkt_out monitor_empty] by blast
  have e: "rb_records (egress_events monitor_empty) = []" by (simp add: monitor_empty_def)
  have n: "new = [\<lparr>ev_src_ip = 0x0500000A, ev_dst_ip = 0x22D8B85D, ev_src_port = 40000,
       ev_dst_port = 443, ev_protocol = 6, ev_bytes = 100, ev_timestamp_ns = 1000, ev_pid = 0\<rparr>]"
    using new(1) e by (simp add: monitor_pkt_out)
  have "\<forall>ev\<in>set new. ev_pid ev = 0 \<and> ev_dst_ip ev = 0x22D8B85D \<and> ev_bytes ev = 100"
    using new(2) n by simp
  then show ?thesis using n new(1) e by simp
qed

section \<open>Counters per direction\<close>



















section \<open>Concurrent first packets of a flow\<close>

text \<open>A call that runs with no other call in between does what \<^verbatim>\<open>track_egress\<close> does.\<close>

lemma alone_is_track_egress:
  "fst (run_sched e [0, 0, 0, 0] (s, [entering env skb])) = fst (track_egress e env skb s)"
  by (simp add: run_sched_def sched_step_def cpu_step_def entering_def entry_write_def
      track_egress_eq split: option.splits)

text \<open>
  Claim C2 fails on the code. Two CPUs see the first packet of the same new flow. When
  both look the key up before either inserts, both find no entry and both insert with
  \<^verbatim>\<open>BPF_ANY\<close>; the second insertion replaces the first. The table ends with exactly
  one entry for the key, whose \<open>packets_sent\<close> is 1 and not 2. When the two calls run
  one after the other, \<open>packets_sent\<close> is 2.
\<close>

theorem concurrent_first_sight_loses_update:
  "egress_key LittleEndian pkt_out = Some key_out \<and>
   bpf_map_lookup_elem (flow_map tracker_empty) key_out = None \<and>
   map cpu_pc (snd (run_sched LittleEndian [0, 1, 0, 1]
       (tracker_empty, [entering env0 pkt_out, entering env0 pkt_out]))) = [Returned, Returned] \<and>
   map fst (flow_map (fst (run_sched LittleEndian [0, 1, 0, 1]
       (tracker_empty, [entering env0 pkt_out, entering env0 pkt_out])))) = [key_out] \<and>
   map (packets_sent \<circ> snd) (flow_map (fst (run_sched LittleEndian [0, 1, 0, 1]
       (tracker_empty, [entering env0 pkt_out, entering env0 pkt_out])))) = [1] \<and>
   map (packets_sent \<circ> snd) (flow_map (fst (run_sched LittleEndian [0, 0, 1, 1, 1, 1]
       (tracker_empty, [entering env0 pkt_out, entering env0 pkt_out])))) = [2]"
  by (simp add: run_sched_def sched_step_def cpu_step_def entering_def entry_write_def
      egress_key_pkt_out tracker_empty_def bpf_map_lookup_elem_def bpf_map_update_elem_def
      MAX_ENTRIES_def new_metrics_def)

end
